theory Spec2Isabelle
  imports Main "HOL-Library.Word"
begin

unbundle bit_operations_syntax

section \<open>GpioManager (PinController)\<close>

text \<open>
  The manager of \<^verbatim>\<open>GpioManager.cpp\<close> keeps one callback slot per pin number in the
  fixed array \<^verbatim>\<open>_configs[GPIO_NUM_MAX]\<close> and the flag \<^verbatim>\<open>_initialized\<close>. Everything else
  is forwarded to the pin driver. The driver is not part of the repository: wherever the
  manager looks at a driver result, that result is an argument of the model.

  A callback (\<^verbatim>\<open>std::function<void(int,int)>\<close>) is a value of an arbitrary type \<open>'cb\<close>;
  an empty \<^verbatim>\<open>std::function\<close> (or \<^verbatim>\<open>nullptr\<close>) is \<open>None\<close>. Calling a callback is
  recorded as an entry \<open>(callback, pin, level)\<close> of the list the trampoline returns.

  C++ leaves two things undefined that the source does not guard: the shift
  \<^verbatim>\<open>1ULL << pin\<close> for a pin outside \<open>0..63\<close> and the array access \<^verbatim>\<open>_configs[pin]\<close> for a pin
  outside \<open>0..39\<close>. The model returns \<open>None\<close> there.
\<close>

definition GPIO_NUM_MAX :: int where
  "GPIO_NUM_MAX = 40"

datatype PinMode = DISABLED | INPUT | OUTPUT | INPUT_PULLUP | INPUT_PULLDOWN

datatype InterruptTrigger = INTR_NONE | INTR_RISING | INTR_FALLING | INTR_BOTH

datatype DriveStrength = DRIVE_DEFAULT | DRIVE_0 | DRIVE_1 | DRIVE_2 | DRIVE_3

datatype gpio_mode_t =
  GPIO_MODE_DISABLE | GPIO_MODE_INPUT | GPIO_MODE_OUTPUT | GPIO_MODE_INPUT_OUTPUT_OD

text \<open>\<^verbatim>\<open>static_cast<gpio_mode_t>(mode)\<close>: the three input enumerators share one value.\<close>

fun mode_cast :: "PinMode \<Rightarrow> gpio_mode_t" where
  "mode_cast DISABLED = GPIO_MODE_DISABLE"
| "mode_cast INPUT = GPIO_MODE_INPUT"
| "mode_cast OUTPUT = GPIO_MODE_OUTPUT"
| "mode_cast INPUT_PULLUP = GPIO_MODE_INPUT"
| "mode_cast INPUT_PULLDOWN = GPIO_MODE_INPUT"

record gpio_config_t =
  pin_bit_mask :: "64 word"
  io_mode :: gpio_mode_t
  pull_up_en :: bool
  pull_down_en :: bool
  intr_type :: InterruptTrigger

text \<open>The driver calls a manager method issues, in order.\<close>

datatype gpio_call =
  Install_isr_service
| Gpio_config gpio_config_t
| Set_drive_capability int DriveStrength
| Isr_handler_add int

record 'cb GpioManager =
  gpio_configs :: "int \<Rightarrow> 'cb option"
  gpio_initialized :: bool

text \<open>The constructor: \<^verbatim>\<open>_initialized(false)\<close> and a zeroed callback table.\<close>

definition GpioManager_new :: "'cb GpioManager" where
  "GpioManager_new = \<lparr>gpio_configs = (\<lambda>_. None), gpio_initialized = False\<rparr>"

text \<open>
  \<^verbatim>\<open>init\<close>; \<open>isr_ok\<close> says whether \<^verbatim>\<open>gpio_install_isr_service(0)\<close> answers \<^verbatim>\<open>ESP_OK\<close>.
\<close>

definition gpio_init ::
  "'cb GpioManager \<Rightarrow> bool \<Rightarrow> bool \<times> 'cb GpioManager \<times> gpio_call list" where
  "gpio_init s isr_ok =
     (if \<not> gpio_initialized s then
        (let s' = (if isr_ok then s\<lparr>gpio_initialized := True\<rparr> else s)
         in (gpio_initialized s', s', [Install_isr_service]))
      else (gpio_initialized s, s, []))"

definition table_index_ok :: "int \<Rightarrow> bool" where
  "table_index_ok pin \<longleftrightarrow> 0 \<le> pin \<and> pin < GPIO_NUM_MAX"

text \<open>
  \<^verbatim>\<open>configurePin\<close>; \<open>isr_ok\<close> as in \<open>gpio_init\<close>, \<open>cfg_ok\<close> says whether
  \<^verbatim>\<open>gpio_config(&io_conf)\<close> answers \<^verbatim>\<open>ESP_OK\<close>. The result is the returned flag, the
  manager afterwards and the driver calls made.
\<close>

definition configurePin ::
  "'cb GpioManager \<Rightarrow> int \<Rightarrow> PinMode \<Rightarrow> bool \<Rightarrow> bool \<Rightarrow> InterruptTrigger \<Rightarrow> 'cb option \<Rightarrow>
   bool \<Rightarrow> DriveStrength \<Rightarrow> bool \<Rightarrow> bool \<Rightarrow> (bool \<times> 'cb GpioManager \<times> gpio_call list) option" where
  "configurePin s pin mode pull_up pull_down intr callback open_drain drive isr_ok cfg_ok =
     (let (_, s1, t1) = (if \<not> gpio_initialized s then gpio_init s isr_ok else (True, s, []))
      in if pin < 0 \<or> 64 \<le> pin then None
         else
           (let io_conf = \<lparr>pin_bit_mask = push_bit (nat pin) 1,
                           io_mode = (if open_drain then GPIO_MODE_INPUT_OUTPUT_OD else mode_cast mode),
                           pull_up_en = pull_up,
                           pull_down_en = pull_down,
                           intr_type = intr\<rparr>;
                t2 = t1 @ [Gpio_config io_conf]
            in if \<not> cfg_ok then Some (False, s1, t2)
               else
                 (let t3 = t2 @ [Set_drive_capability pin drive]
                  in if intr \<noteq> INTR_NONE \<and> callback \<noteq> None then
                       (if table_index_ok pin then
                          Some (True, s1\<lparr>gpio_configs := (gpio_configs s1)(pin := callback)\<rparr>,
                                t3 @ [Isr_handler_add pin])
                        else None)
                     else Some (True, s1, t3))))"

text \<open>
  \<^verbatim>\<open>isrHandler\<close>, the trampoline the driver calls with the pin number; \<open>level\<close> is what
  \<^verbatim>\<open>gpio_get_level\<close> answers. The result lists the callback invocations.
\<close>

definition isrHandler :: "'cb GpioManager \<Rightarrow> int \<Rightarrow> int \<Rightarrow> ('cb \<times> int \<times> int) list option" where
  "isrHandler s pin level =
     (if table_index_ok pin then
        Some (case gpio_configs s pin of None \<Rightarrow> [] | Some cb \<Rightarrow> [(cb, pin, level)])
      else None)"

text \<open>
  \<^verbatim>\<open>setLevel\<close>, \<^verbatim>\<open>getLevel\<close> and \<^verbatim>\<open>toggle\<close> touch only the pin hardware. The hardware is a
  value of an arbitrary type \<open>'hw\<close>, read by \<open>gpio_get_level\<close> and changed by
  \<open>gpio_set_level\<close>, both arguments of the model.
\<close>

definition setLevel ::
  "('hw \<Rightarrow> int \<Rightarrow> 32 word \<Rightarrow> 'hw) \<Rightarrow> 'hw \<Rightarrow> int \<Rightarrow> 32 word \<Rightarrow> 'hw" where
  "setLevel gpio_set_level hw pin level = gpio_set_level hw pin level"

definition getLevel :: "('hw \<Rightarrow> int \<Rightarrow> int) \<Rightarrow> 'hw \<Rightarrow> int \<Rightarrow> int" where
  "getLevel gpio_get_level hw pin = gpio_get_level hw pin"

text \<open>\<^verbatim>\<open>!lvl\<close> is \<^verbatim>\<open>true\<close> exactly for \<open>lvl = 0\<close> and converts to the level 1, else 0.\<close>

definition toggle ::
  "('hw \<Rightarrow> int \<Rightarrow> int) \<Rightarrow> ('hw \<Rightarrow> int \<Rightarrow> 32 word \<Rightarrow> 'hw) \<Rightarrow> 'hw \<Rightarrow> int \<Rightarrow> 'hw" where
  "toggle gpio_get_level gpio_set_level hw pin =
     (let lvl = getLevel gpio_get_level hw pin
      in setLevel gpio_set_level hw pin (if lvl = 0 then 1 else 0))"

text \<open>
  A pad that reads back what was last written to it: the simplest pin hardware, used to
  run the manager on concrete inputs. A pad is driven high by any non-zero level.
\<close>

definition pad_get_level :: "(int \<Rightarrow> int) \<Rightarrow> int \<Rightarrow> int" where
  "pad_get_level hw pin = hw pin"

definition pad_set_level :: "(int \<Rightarrow> int) \<Rightarrow> int \<Rightarrow> 32 word \<Rightarrow> (int \<Rightarrow> int)" where
  "pad_set_level hw pin level = hw(pin := (if level = 0 then 0 else 1))"


section \<open>MqttClient (MessageBrokerClient)\<close>

text \<open>
  The state of \<^verbatim>\<open>MqttClient.cpp\<close>. The request structure \<^verbatim>\<open>_config\<close> holds C pointers:
  \<^verbatim>\<open>_brokerUri.c_str()\<close> and its like point into string members of the manager, and
  \<^verbatim>\<open>username.c_str()\<close> into an argument. A pointer is therefore a value of \<open>cstr\<close>: null, one
  of the four member buffers, or an argument's text. What a member pointer denotes is read
  from the manager at the moment of use (\<open>deref\<close>).

  The client layer behind \<^verbatim>\<open>esp_mqtt_client_init\<close> is not part of the repository. It reads
  the request while the call runs and keeps a copy of its own (\<open>mqtt_session\<close>); whether it
  returns a handle is an argument of the model.
\<close>

datatype MqttStatus = MQTT_DISCONNECTED | MQTT_CONNECTING | MQTT_CONNECTED | MQTT_ERROR

datatype cstr = NULL | Buf_brokerUri | Buf_clientId | Buf_willTopic | Buf_willPayload | Buf_arg string

record esp_mqtt_client_config_t =
  cfg_uri :: cstr
  cfg_client_id :: cstr
  cfg_username :: cstr
  cfg_password :: cstr
  cfg_keepalive :: int
  cfg_disable_clean_session :: bool
  cfg_last_will_topic :: cstr
  cfg_last_will_msg :: cstr
  cfg_last_will_qos :: int
  cfg_last_will_retain :: bool

text \<open>\<^verbatim>\<open>memset(&_config, 0, sizeof(_config))\<close>.\<close>

definition config_zero :: esp_mqtt_client_config_t where
  "config_zero =
     \<lparr>cfg_uri = NULL, cfg_client_id = NULL, cfg_username = NULL, cfg_password = NULL,
      cfg_keepalive = 0, cfg_disable_clean_session = False,
      cfg_last_will_topic = NULL, cfg_last_will_msg = NULL,
      cfg_last_will_qos = 0, cfg_last_will_retain = False\<rparr>"

record mqtt_session =
  ses_uri :: "string option"
  ses_client_id :: "string option"
  ses_username :: "string option"
  ses_password :: "string option"
  ses_keepalive :: int
  ses_disable_clean_session :: bool
  ses_last_will_topic :: "string option"
  ses_last_will_msg :: "string option"
  ses_last_will_qos :: int
  ses_last_will_retain :: bool

record esp_mqtt_client =
  cl_session :: mqtt_session
  cl_event_handler :: bool

record MqttClient =
  mq_client :: "esp_mqtt_client option"
  mq_config :: esp_mqtt_client_config_t
  mq_status :: MqttStatus
  mq_userCallback :: "nat option"
  mq_userData :: nat
  mq_brokerUri :: string
  mq_clientId :: string
  mq_willTopic :: string
  mq_willPayload :: string
  mq_willQos :: int
  mq_willRetain :: bool

datatype mqtt_payload = Text string | Bytes "8 word list"

text \<open>The calls into the client layer a manager method issues, in order.\<close>

datatype mqtt_call =
  Client_init mqtt_session
| Client_register_event
| Client_start
| Client_stop
| Client_publish string mqtt_payload nat int bool
| Client_subscribe string int
| Client_unsubscribe string

definition MqttClient_new :: MqttClient where
  "MqttClient_new =
     \<lparr>mq_client = None, mq_config = config_zero, mq_status = MQTT_DISCONNECTED,
      mq_userCallback = None, mq_userData = 0, mq_brokerUri = [], mq_clientId = [],
      mq_willTopic = [], mq_willPayload = [], mq_willQos = 0, mq_willRetain = False\<rparr>"

fun deref :: "MqttClient \<Rightarrow> cstr \<Rightarrow> string option" where
  "deref s NULL = None"
| "deref s Buf_brokerUri = Some (mq_brokerUri s)"
| "deref s Buf_clientId = Some (mq_clientId s)"
| "deref s Buf_willTopic = Some (mq_willTopic s)"
| "deref s Buf_willPayload = Some (mq_willPayload s)"
| "deref s (Buf_arg txt) = Some txt"

text \<open>What the client layer reads from the request \<^verbatim>\<open>&_config\<close> of manager \<open>s\<close>.\<close>

definition read_config :: "MqttClient \<Rightarrow> mqtt_session" where
  "read_config s =
     (let c = mq_config s in
      \<lparr>ses_uri = deref s (cfg_uri c),
       ses_client_id = deref s (cfg_client_id c),
       ses_username = deref s (cfg_username c),
       ses_password = deref s (cfg_password c),
       ses_keepalive = cfg_keepalive c,
       ses_disable_clean_session = cfg_disable_clean_session c,
       ses_last_will_topic = deref s (cfg_last_will_topic c),
       ses_last_will_msg = deref s (cfg_last_will_msg c),
       ses_last_will_qos = cfg_last_will_qos c,
       ses_last_will_retain = cfg_last_will_retain c\<rparr>)"

definition esp_mqtt_client_init :: "MqttClient \<Rightarrow> bool \<Rightarrow> esp_mqtt_client option" where
  "esp_mqtt_client_init s init_ok =
     (if init_ok then Some \<lparr>cl_session = read_config s, cl_event_handler = False\<rparr> else None)"

text \<open>
  \<^verbatim>\<open>configure\<close>; \<open>init_ok\<close> says whether \<^verbatim>\<open>esp_mqtt_client_init\<close> returns a handle. A handle
  held from an earlier call is overwritten, not destroyed.
\<close>

definition configure ::
  "MqttClient \<Rightarrow> string \<Rightarrow> string \<Rightarrow> string \<Rightarrow> string \<Rightarrow> int \<Rightarrow> bool \<Rightarrow> bool \<Rightarrow>
   bool \<times> MqttClient \<times> mqtt_call list" where
  "configure s uri clientId username password keepalive cleanSession init_ok =
     (let s1 = s\<lparr>mq_brokerUri := uri, mq_clientId := clientId\<rparr>;
          c1 = config_zero\<lparr>cfg_uri := Buf_brokerUri, cfg_client_id := Buf_clientId\<rparr>;
          c2 = (if username \<noteq> [] then c1\<lparr>cfg_username := Buf_arg username\<rparr> else c1);
          c3 = (if password \<noteq> [] then c2\<lparr>cfg_password := Buf_arg password\<rparr> else c2);
          c4 = c3\<lparr>cfg_keepalive := keepalive, cfg_disable_clean_session := cleanSession\<rparr>;
          c5 = (if mq_willTopic s1 \<noteq> [] then
                  c4\<lparr>cfg_last_will_topic := Buf_willTopic,
                     cfg_last_will_msg := Buf_willPayload,
                     cfg_last_will_qos := mq_willQos s1,
                     cfg_last_will_retain := mq_willRetain s1\<rparr>
                else c4);
          s2 = s1\<lparr>mq_config := c5\<rparr>;
          s3 = s2\<lparr>mq_client := esp_mqtt_client_init s2 init_ok\<rparr>;
          t = [Client_init (read_config s2)]
      in case mq_client s3 of
           None \<Rightarrow> (False, s3\<lparr>mq_status := MQTT_ERROR\<rparr>, t)
         | Some c \<Rightarrow>
             (True,
              s3\<lparr>mq_client := Some (c\<lparr>cl_event_handler := True\<rparr>), mq_status := MQTT_DISCONNECTED\<rparr>,
              t @ [Client_register_event]))"

definition setWill :: "MqttClient \<Rightarrow> string \<Rightarrow> string \<Rightarrow> int \<Rightarrow> bool \<Rightarrow> MqttClient" where
  "setWill s topic payload qos retain =
     s\<lparr>mq_willTopic := topic, mq_willPayload := payload, mq_willQos := qos, mq_willRetain := retain\<rparr>"

text \<open>\<^verbatim>\<open>connect\<close> and \<^verbatim>\<open>disconnect\<close>; the flag says whether the client layer answers \<^verbatim>\<open>ESP_OK\<close>.\<close>

definition mqtt_connect :: "MqttClient \<Rightarrow> bool \<Rightarrow> bool \<times> MqttClient \<times> mqtt_call list" where
  "mqtt_connect s start_ok =
     (if mq_client s = None then (False, s, [])
      else if start_ok then (True, s\<lparr>mq_status := MQTT_CONNECTING\<rparr>, [Client_start])
      else (False, s\<lparr>mq_status := MQTT_ERROR\<rparr>, [Client_start]))"

definition mqtt_disconnect :: "MqttClient \<Rightarrow> bool \<Rightarrow> bool \<times> MqttClient \<times> mqtt_call list" where
  "mqtt_disconnect s stop_ok =
     (if mq_client s = None then (False, s, [])
      else if stop_ok then (True, s\<lparr>mq_status := MQTT_DISCONNECTED\<rparr>, [Client_stop])
      else (False, s, [Client_stop]))"

text \<open>
  The four forwarding methods; \<open>msg_id\<close> is what the client layer returns. The string
  overload of \<^verbatim>\<open>publish\<close> passes length 0.
\<close>

definition publish ::
  "MqttClient \<Rightarrow> string \<Rightarrow> string \<Rightarrow> int \<Rightarrow> bool \<Rightarrow> int \<Rightarrow> int \<times> MqttClient \<times> mqtt_call list" where
  "publish s topic payload qos retain msg_id =
     (if mq_client s = None then (- 1, s, [])
      else (msg_id, s, [Client_publish topic (Text payload) 0 qos retain]))"

definition publish_binary ::
  "MqttClient \<Rightarrow> string \<Rightarrow> 8 word list \<Rightarrow> nat \<Rightarrow> int \<Rightarrow> bool \<Rightarrow> int \<Rightarrow>
   int \<times> MqttClient \<times> mqtt_call list" where
  "publish_binary s topic data len qos retain msg_id =
     (if mq_client s = None then (- 1, s, [])
      else (msg_id, s, [Client_publish topic (Bytes data) len qos retain]))"

definition subscribe ::
  "MqttClient \<Rightarrow> string \<Rightarrow> int \<Rightarrow> int \<Rightarrow> int \<times> MqttClient \<times> mqtt_call list" where
  "subscribe s topic qos msg_id =
     (if mq_client s = None then (- 1, s, [])
      else (msg_id, s, [Client_subscribe topic qos]))"

definition unsubscribe ::
  "MqttClient \<Rightarrow> string \<Rightarrow> int \<Rightarrow> int \<times> MqttClient \<times> mqtt_call list" where
  "unsubscribe s topic msg_id =
     (if mq_client s = None then (- 1, s, [])
      else (msg_id, s, [Client_unsubscribe topic]))"

definition mqtt_setEventCallback :: "MqttClient \<Rightarrow> nat option \<Rightarrow> nat \<Rightarrow> MqttClient" where
  "mqtt_setEventCallback s callback user_data =
     s\<lparr>mq_userCallback := callback, mq_userData := user_data\<rparr>"

definition mqtt_getStatus :: "MqttClient \<Rightarrow> MqttStatus" where
  "mqtt_getStatus s = mq_status s"

text \<open>
  The event identifiers the trampoline names, and \<open>MQTT_EVENT_OTHER\<close> for every other
  identifier (the \<^verbatim>\<open>default\<close> branch).
\<close>

datatype esp_mqtt_event_id_t =
  MQTT_EVENT_BEFORE_CONNECT
| MQTT_EVENT_CONNECTED
| MQTT_EVENT_DISCONNECTED
| MQTT_EVENT_SUBSCRIBED
| MQTT_EVENT_UNSUBSCRIBED
| MQTT_EVENT_PUBLISHED
| MQTT_EVENT_DATA
| MQTT_EVENT_ERROR
| MQTT_EVENT_OTHER int

fun event_status :: "MqttStatus \<Rightarrow> esp_mqtt_event_id_t \<Rightarrow> MqttStatus" where
  "event_status st MQTT_EVENT_BEFORE_CONNECT = MQTT_CONNECTING"
| "event_status st MQTT_EVENT_CONNECTED = MQTT_CONNECTED"
| "event_status st MQTT_EVENT_DISCONNECTED = MQTT_DISCONNECTED"
| "event_status st MQTT_EVENT_SUBSCRIBED = st"
| "event_status st MQTT_EVENT_UNSUBSCRIBED = st"
| "event_status st MQTT_EVENT_PUBLISHED = st"
| "event_status st MQTT_EVENT_DATA = st"
| "event_status st MQTT_EVENT_ERROR = MQTT_ERROR"
| "event_status st (MQTT_EVENT_OTHER n) = st"

text \<open>
  \<^verbatim>\<open>eventHandlerCb\<close>: the \<^verbatim>\<open>switch\<close> first, the observer after it. An observer call is
  recorded as \<open>(callback, event, user data, manager at the moment of the call)\<close>.
\<close>

definition eventHandlerCb ::
  "MqttClient \<Rightarrow> esp_mqtt_event_id_t \<Rightarrow>
   MqttClient \<times> (nat \<times> esp_mqtt_event_id_t \<times> nat \<times> MqttClient) list" where
  "eventHandlerCb self eventId =
     (let self1 = self\<lparr>mq_status := event_status (mq_status self) eventId\<rparr>
      in case mq_userCallback self1 of
           None \<Rightarrow> (self1, [])
         | Some cb \<Rightarrow> (self1, [(cb, eventId, mq_userData self1, self1)]))"

text \<open>A run of the client: public calls and broker events, each with the answers of the
  client layer it meets.\<close>

datatype mqtt_op =
  Op_configure string string string string int bool bool
| Op_setWill string string int bool
| Op_connect bool
| Op_disconnect bool
| Op_publish string string int bool int
| Op_publish_binary string "8 word list" nat int bool int
| Op_subscribe string int int
| Op_unsubscribe string int
| Op_setEventCallback "nat option" nat
| Op_event esp_mqtt_event_id_t

fun mqtt_step :: "MqttClient \<Rightarrow> mqtt_op \<Rightarrow> MqttClient" where
  "mqtt_step s (Op_configure uri cid usr pw ka cs init_ok) =
     fst (snd (configure s uri cid usr pw ka cs init_ok))"
| "mqtt_step s (Op_setWill t p q r) = setWill s t p q r"
| "mqtt_step s (Op_connect ok) = fst (snd (mqtt_connect s ok))"
| "mqtt_step s (Op_disconnect ok) = fst (snd (mqtt_disconnect s ok))"
| "mqtt_step s (Op_publish t p q r m) = fst (snd (publish s t p q r m))"
| "mqtt_step s (Op_publish_binary t d l q r m) = fst (snd (publish_binary s t d l q r m))"
| "mqtt_step s (Op_subscribe t q m) = fst (snd (subscribe s t q m))"
| "mqtt_step s (Op_unsubscribe t m) = fst (snd (unsubscribe s t m))"
| "mqtt_step s (Op_setEventCallback cb ud) = mqtt_setEventCallback s cb ud"
| "mqtt_step s (Op_event e) = fst (eventHandlerCb s e)"

fun mqtt_run :: "MqttClient \<Rightarrow> mqtt_op list \<Rightarrow> MqttClient" where
  "mqtt_run s [] = s"
| "mqtt_run s (x # xs) = mqtt_run (mqtt_step s x) xs"

fun configure_succeeds :: "mqtt_op \<Rightarrow> bool" where
  "configure_succeeds (Op_configure uri cid usr pw ka cs init_ok) = init_ok"
| "configure_succeeds _ = False"


section \<open>WiFiManager (RadioLinkManager)\<close>

text \<open>
  The state of \<^verbatim>\<open>WiFiManager.cpp\<close>, together with the file's static event group
  \<^verbatim>\<open>s_wifi_event_group\<close> (\<open>None\<close> while the handle is null, else the group's bits). The two
  network-interface handles are kept as flags: the handle is non-null or not.

  \<^verbatim>\<open>ESP_ERROR_CHECK\<close> aborts the program when the checked call fails. A method that runs
  into one has no result: the model returns \<open>None\<close>. What each call of the radio layer
  answers is given by a record \<open>wifi_hw\<close>, one per method call. The request structures
  handed to the radio layer are not part of the manager's state and are left out.
\<close>

datatype WiFiMode = STATION | ACCESS_POINT | BOTH

datatype WiFiStatus = DISCONNECTED | CONNECTING | CONNECTED | FAILED

datatype nvs_ret = NVS_OK | NVS_NO_FREE_PAGES | NVS_NEW_VERSION_FOUND | NVS_OTHER_ERROR

record wifi_hw =
  hw_nvs_flash_init :: nvs_ret
  hw_nvs_flash_erase_ok :: bool
  hw_nvs_flash_init_again_ok :: bool
  hw_event_loop_ok :: bool
  hw_netif_init_ok :: bool
  hw_event_group_ok :: bool
  hw_sta_netif_ok :: bool
  hw_ap_netif_ok :: bool
  hw_wifi_init_ok :: bool
  hw_register_wifi_ok :: bool
  hw_register_ip_ok :: bool
  hw_set_config_ok :: bool
  hw_set_mode_ok :: bool
  hw_start_ok :: bool
  hw_connect_ok :: bool
  hw_stop_ok :: bool

record WiFiManager =
  wf_mode :: WiFiMode
  wf_status :: WiFiStatus
  wf_eventCallback :: "nat option"
  wf_userCallbackData :: nat
  wf_initialized :: bool
  wf_staNetif :: bool
  wf_apNetif :: bool
  wf_stationSSID :: string
  wf_stationPassword :: string
  wf_apSSID :: string
  wf_apPassword :: string
  wf_event_group :: "32 word option"

definition WIFI_CONNECTED_BIT :: "32 word" where
  "WIFI_CONNECTED_BIT = 1"

definition WIFI_FAIL_BIT :: "32 word" where
  "WIFI_FAIL_BIT = 2"

definition WiFiManager_new :: WiFiManager where
  "WiFiManager_new =
     \<lparr>wf_mode = STATION, wf_status = DISCONNECTED, wf_eventCallback = None,
      wf_userCallbackData = 0, wf_initialized = False, wf_staNetif = False, wf_apNetif = False,
      wf_stationSSID = [], wf_stationPassword = [], wf_apSSID = [], wf_apPassword = [],
      wf_event_group = None\<rparr>"

text \<open>The outcome of the storage bring-up at the head of \<^verbatim>\<open>init\<close>: \<open>None\<close> is an abort.\<close>

definition nvs_bring_up :: "wifi_hw \<Rightarrow> unit option" where
  "nvs_bring_up hw =
     (let ret = hw_nvs_flash_init hw
      in if ret = NVS_NO_FREE_PAGES \<or> ret = NVS_NEW_VERSION_FOUND then
           (if \<not> hw_nvs_flash_erase_ok hw then None
            else if \<not> hw_nvs_flash_init_again_ok hw then None
            else Some ())
         else if ret \<noteq> NVS_OK then None
         else Some ())"

definition wifi_init :: "WiFiManager \<Rightarrow> wifi_hw \<Rightarrow> (bool \<times> WiFiManager) option" where
  "wifi_init s hw =
     (if wf_initialized s then Some (True, s)
      else if nvs_bring_up hw = None then None
      else if \<not> hw_event_loop_ok hw then None
      else if \<not> hw_netif_init_ok hw then None
      else
        (let s1 = s\<lparr>wf_event_group := (if hw_event_group_ok hw then Some 0 else None)\<rparr>
         in if wf_event_group s1 = None then Some (False, s1)
            else
              (let s2 = s1\<lparr>wf_staNetif := hw_sta_netif_ok hw, wf_apNetif := hw_ap_netif_ok hw\<rparr>
               in if \<not> wf_staNetif s2 \<or> \<not> wf_apNetif s2 then Some (False, s2)
                  else if \<not> hw_wifi_init_ok hw then None
                  else if \<not> hw_register_wifi_ok hw then None
                  else if \<not> hw_register_ip_ok hw then None
                  else Some (True, s2\<lparr>wf_initialized := True\<rparr>))))"

text \<open>
  The guard \<^verbatim>\<open>if (!_initialized && !init()) return false;\<close> that opens several methods:
  \<open>None\<close> is an abort inside \<^verbatim>\<open>init\<close>, \<open>Some (False, s')\<close> the early return, and
  \<open>Some (True, s')\<close> lets the method go on from \<open>s'\<close>.
\<close>

definition ensure_init :: "WiFiManager \<Rightarrow> wifi_hw \<Rightarrow> (bool \<times> WiFiManager) option" where
  "ensure_init s hw = (if \<not> wf_initialized s then wifi_init s hw else Some (True, s))"

definition configureStation ::
  "WiFiManager \<Rightarrow> string \<Rightarrow> string \<Rightarrow> string \<Rightarrow> wifi_hw \<Rightarrow> (bool \<times> WiFiManager) option" where
  "configureStation s ssid password hostname hw =
     (case ensure_init s hw of
        None \<Rightarrow> None
      | Some (ok, s0) \<Rightarrow>
          if \<not> ok then Some (False, s0)
          else
            (let s1 = s0\<lparr>wf_stationSSID := ssid, wf_stationPassword := password\<rparr>;
                 s2 = (if wf_mode s1 = ACCESS_POINT then s1\<lparr>wf_mode := BOTH\<rparr>
                       else s1\<lparr>wf_mode := STATION\<rparr>)
             in Some (True, s2)))"

definition configureAP ::
  "WiFiManager \<Rightarrow> string \<Rightarrow> string \<Rightarrow> 8 word \<Rightarrow> 8 word \<Rightarrow> wifi_hw \<Rightarrow>
   (bool \<times> WiFiManager) option" where
  "configureAP s ssid password channel maxConnections hw =
     (case ensure_init s hw of
        None \<Rightarrow> None
      | Some (ok, s0) \<Rightarrow>
          if \<not> ok then Some (False, s0)
          else
            (let s1 = s0\<lparr>wf_apSSID := ssid, wf_apPassword := password\<rparr>;
                 s2 = (if wf_mode s1 = STATION then s1\<lparr>wf_mode := BOTH\<rparr>
                       else s1\<lparr>wf_mode := ACCESS_POINT\<rparr>)
             in if \<not> hw_set_config_ok hw then None else Some (True, s2)))"

definition station_role :: "WiFiMode \<Rightarrow> bool" where
  "station_role m \<longleftrightarrow> m = STATION \<or> m = BOTH"

definition wifi_start :: "WiFiManager \<Rightarrow> wifi_hw \<Rightarrow> (bool \<times> WiFiManager) option" where
  "wifi_start s hw =
     (case ensure_init s hw of
        None \<Rightarrow> None
      | Some (ok, s0) \<Rightarrow>
          if \<not> ok then Some (False, s0)
          else if \<not> hw_set_mode_ok hw then None
          else if station_role (wf_mode s0) \<and> \<not> hw_set_config_ok hw then None
          else if \<not> hw_start_ok hw then None
          else if station_role (wf_mode s0) then
            (if \<not> hw_connect_ok hw then None
             else Some (True, s0\<lparr>wf_status := CONNECTING\<rparr>))
          else Some (True, s0))"

definition wifi_stop :: "WiFiManager \<Rightarrow> wifi_hw \<Rightarrow> bool \<times> WiFiManager" where
  "wifi_stop s hw =
     (if \<not> wf_initialized s then (True, s)
      else if \<not> hw_stop_ok hw then (False, s)
      else (True, s\<lparr>wf_status := DISCONNECTED\<rparr>))"

definition wifi_getStatus :: "WiFiManager \<Rightarrow> WiFiStatus" where
  "wifi_getStatus s = wf_status s"

text \<open>The two address getters; \<open>ip\<close> is the interface address as the radio layer prints it.\<close>

definition getIPAddress :: "WiFiManager \<Rightarrow> string \<Rightarrow> string" where
  "getIPAddress s ip = (if wf_status s \<noteq> CONNECTED then [] else ip)"

definition getAPIPAddress :: "WiFiManager \<Rightarrow> string \<Rightarrow> string" where
  "getAPIPAddress s ip = (if wf_mode s \<noteq> ACCESS_POINT \<and> wf_mode s \<noteq> BOTH then [] else ip)"

definition wifi_setEventCallback :: "WiFiManager \<Rightarrow> nat option \<Rightarrow> nat \<Rightarrow> WiFiManager" where
  "wifi_setEventCallback s callback userData =
     s\<lparr>wf_eventCallback := callback, wf_userCallbackData := userData\<rparr>"

text \<open>
  \<^verbatim>\<open>waitForConnection\<close>. \<open>tick_period_ms\<close> stands for the macro \<^verbatim>\<open>portTICK_PERIOD_MS\<close>, which
  the repository does not define, and \<open>bits\<close> is what \<^verbatim>\<open>xEventGroupWaitBits\<close> returns once
  it stops blocking. The result is the returned flag and the list of blocking waits made,
  each as \<open>(bits waited for, ticks)\<close>; \<open>None\<close> is the division by a zero tick period.
\<close>

definition waitForConnection ::
  "WiFiManager \<Rightarrow> 32 word \<Rightarrow> 32 word \<Rightarrow> 32 word \<Rightarrow> (bool \<times> (32 word \<times> 32 word) list) option" where
  "waitForConnection s timeoutMs tick_period_ms bits =
     (if wf_mode s \<noteq> STATION \<and> wf_mode s \<noteq> BOTH then Some (False, [])
      else if tick_period_ms = 0 then None
      else
        (let w = [(WIFI_CONNECTED_BIT OR WIFI_FAIL_BIT, timeoutMs div tick_period_ms)]
         in if bits AND WIFI_CONNECTED_BIT \<noteq> 0 then Some (True, w)
            else if bits AND WIFI_FAIL_BIT \<noteq> 0 then Some (False, w)
            else Some (False, w)))"

text \<open>
  \<^verbatim>\<open>scanNetworks\<close>; \<open>found\<close> is \<open>None\<close> when the scan or the fetch of its records fails, else
  the records the radio layer has. The manager changes only through \<^verbatim>\<open>init\<close>.
\<close>

definition scanNetworks ::
  "WiFiManager \<Rightarrow> 16 word \<Rightarrow> 'r list option \<Rightarrow> wifi_hw \<Rightarrow> ('r list \<times> WiFiManager) option" where
  "scanNetworks s maxResults found hw =
     (case ensure_init s hw of
        None \<Rightarrow> None
      | Some (ok, s0) \<Rightarrow>
          if \<not> ok then Some ([], s0)
          else (case found of
                  None \<Rightarrow> Some ([], s0)
                | Some records \<Rightarrow> Some (take (unat maxResults) records, s0)))"

text \<open>
  The events the trampoline is registered for: every radio event (four of them named in
  the source, \<open>WIFI_EVENT_OTHER\<close> for the rest) and the one address event.
\<close>

datatype wifi_event =
  WIFI_EVENT_STA_START
| WIFI_EVENT_STA_DISCONNECTED
| WIFI_EVENT_AP_STACONNECTED
| WIFI_EVENT_AP_STADISCONNECTED
| WIFI_EVENT_OTHER
| IP_EVENT_STA_GOT_IP

definition notify :: "WiFiManager \<Rightarrow> WiFiStatus \<Rightarrow> (nat \<times> WiFiStatus \<times> nat) list" where
  "notify self st =
     (case wf_eventCallback self of
        None \<Rightarrow> []
      | Some cb \<Rightarrow> [(cb, st, wf_userCallbackData self)])"

text \<open>
  \<^verbatim>\<open>wifiEventHandler\<close>: the manager afterwards and the observer calls made, each as
  \<open>(callback, status passed, user data)\<close>.
\<close>

fun wifiEventHandler ::
  "WiFiManager \<Rightarrow> wifi_event \<Rightarrow> WiFiManager \<times> (nat \<times> WiFiStatus \<times> nat) list" where
  "wifiEventHandler self WIFI_EVENT_STA_START = (self\<lparr>wf_status := CONNECTING\<rparr>, [])"
| "wifiEventHandler self WIFI_EVENT_STA_DISCONNECTED =
     (let s1 = self\<lparr>wf_status := DISCONNECTED\<rparr>;
          s2 = s1\<lparr>wf_event_group :=
                    map_option (\<lambda>b. (b AND NOT WIFI_CONNECTED_BIT) OR WIFI_FAIL_BIT) (wf_event_group s1)\<rparr>
      in (s2, notify s2 DISCONNECTED))"
| "wifiEventHandler self WIFI_EVENT_AP_STACONNECTED = (self, [])"
| "wifiEventHandler self WIFI_EVENT_AP_STADISCONNECTED = (self, [])"
| "wifiEventHandler self WIFI_EVENT_OTHER = (self, [])"
| "wifiEventHandler self IP_EVENT_STA_GOT_IP =
     (let s1 = self\<lparr>wf_status := CONNECTED\<rparr>;
          s2 = s1\<lparr>wf_event_group := map_option (\<lambda>b. b OR WIFI_CONNECTED_BIT) (wf_event_group s1)\<rparr>
      in (s2, notify s2 CONNECTED))"

text \<open>A run of the manager: public calls and radio events, each with the answers of the
  radio layer it meets. A run ends at an abort.\<close>

datatype wifi_op =
  W_init wifi_hw
| W_configureStation string string string wifi_hw
| W_configureAP string string "8 word" "8 word" wifi_hw
| W_start wifi_hw
| W_stop wifi_hw
| W_getStatus
| W_getIPAddress string
| W_getAPIPAddress string
| W_setEventCallback "nat option" nat
| W_waitForConnection "32 word" "32 word" "32 word"
| W_scanNetworks "16 word" "nat list option" wifi_hw
| W_event wifi_event

fun wifi_step :: "WiFiManager \<Rightarrow> wifi_op \<Rightarrow> WiFiManager option" where
  "wifi_step s (W_init hw) = map_option snd (wifi_init s hw)"
| "wifi_step s (W_configureStation ssid pw host hw) = map_option snd (configureStation s ssid pw host hw)"
| "wifi_step s (W_configureAP ssid pw ch mx hw) = map_option snd (configureAP s ssid pw ch mx hw)"
| "wifi_step s (W_start hw) = map_option snd (wifi_start s hw)"
| "wifi_step s (W_stop hw) = Some (snd (wifi_stop s hw))"
| "wifi_step s W_getStatus = Some s"
| "wifi_step s (W_getIPAddress ip) = Some s"
| "wifi_step s (W_getAPIPAddress ip) = Some s"
| "wifi_step s (W_setEventCallback cb ud) = Some (wifi_setEventCallback s cb ud)"
| "wifi_step s (W_waitForConnection t p b) = map_option (\<lambda>_. s) (waitForConnection s t p b)"
| "wifi_step s (W_scanNetworks n found hw) = map_option snd (scanNetworks s n found hw)"
| "wifi_step s (W_event e) = Some (fst (wifiEventHandler s e))"

fun wifi_run :: "WiFiManager \<Rightarrow> wifi_op list \<Rightarrow> WiFiManager" where
  "wifi_run s [] = s"
| "wifi_run s (x # xs) = (case wifi_step s x of None \<Rightarrow> s | Some s' \<Rightarrow> wifi_run s' xs)"

text \<open>A radio layer that accepts every request.\<close>

definition hw_all_ok :: wifi_hw where
  "hw_all_ok =
     \<lparr>hw_nvs_flash_init = NVS_OK, hw_nvs_flash_erase_ok = True, hw_nvs_flash_init_again_ok = True,
      hw_event_loop_ok = True, hw_netif_init_ok = True, hw_event_group_ok = True,
      hw_sta_netif_ok = True, hw_ap_netif_ok = True, hw_wifi_init_ok = True,
      hw_register_wifi_ok = True, hw_register_ip_ok = True, hw_set_config_ok = True,
      hw_set_mode_ok = True, hw_start_ok = True, hw_connect_ok = True, hw_stop_ok = True\<rparr>"


section \<open>ADCManager (AnalogInputManager)\<close>

text \<open>
  The one-shot path of \<^verbatim>\<open>ADCManager.cpp\<close>. A handle is \<open>None\<close> while null. An error code
  \<^verbatim>\<open>esp_err_t\<close> is an integer; a call that takes an output pointer returns, next to its
  code, what it stored through the pointer (\<open>None\<close>: nothing stored). The answers of the
  sampling driver are arguments of the model.
\<close>

type_synonym esp_err_t = int

definition ESP_OK :: esp_err_t where
  "ESP_OK = 0"

definition ESP_ERR_INVALID_STATE :: esp_err_t where
  "ESP_ERR_INVALID_STATE = 0x103"

record ADCManager =
  adc_one_shot_unit_handle :: "nat option"
  adc_continuous_handle :: "nat option"
  adc_cali_handle :: "nat option"
  adc_user_callback :: "nat option"
  adc_continuous_running :: bool

definition ADCManager_new :: ADCManager where
  "ADCManager_new =
     \<lparr>adc_one_shot_unit_handle = None, adc_continuous_handle = None, adc_cali_handle = None,
      adc_user_callback = None, adc_continuous_running = False\<rparr>"

text \<open>
  \<^verbatim>\<open>configOneShot\<close>; \<open>new_unit\<close>, \<open>config_channel\<close> and \<open>create_cali\<close> are the answers of
  \<^verbatim>\<open>adc_oneshot_new_unit\<close>, \<^verbatim>\<open>adc_oneshot_config_channel\<close> and
  \<^verbatim>\<open>adc_cali_create_scheme_line_fitting\<close>.
\<close>

definition store_handle :: "nat option \<Rightarrow> nat option \<Rightarrow> nat option" where
  "store_handle old written = (case written of None \<Rightarrow> old | Some h \<Rightarrow> Some h)"

definition configOneShot ::
  "ADCManager \<Rightarrow> nat \<Rightarrow> nat \<Rightarrow> nat \<Rightarrow> nat \<Rightarrow> esp_err_t \<times> nat option \<Rightarrow> esp_err_t \<Rightarrow>
   esp_err_t \<times> nat option \<Rightarrow> esp_err_t \<times> ADCManager" where
  "configOneShot s unit channel bitwidth atten new_unit config_channel create_cali =
     (let s1 = s\<lparr>adc_one_shot_unit_handle :=
                   store_handle (adc_one_shot_unit_handle s) (snd new_unit)\<rparr>
      in if fst new_unit \<noteq> ESP_OK then (fst new_unit, s1)
         else if config_channel \<noteq> ESP_OK then (config_channel, s1)
         else
           (let s2 = s1\<lparr>adc_cali_handle := store_handle (adc_cali_handle s1) (snd create_cali)\<rparr>;
                s3 = (if fst create_cali \<noteq> ESP_OK then s2\<lparr>adc_cali_handle := None\<rparr> else s2)
            in (ESP_OK, s3)))"

text \<open>\<^verbatim>\<open>readOneShot\<close>; \<open>oneshot_read\<close> is the answer of \<^verbatim>\<open>adc_oneshot_read\<close> for a channel.\<close>

definition readOneShot ::
  "ADCManager \<Rightarrow> nat \<Rightarrow> nat \<Rightarrow> (nat \<Rightarrow> esp_err_t \<times> int option) \<Rightarrow> esp_err_t \<times> int option" where
  "readOneShot s unit channel oneshot_read =
     (if adc_one_shot_unit_handle s = None then (ESP_ERR_INVALID_STATE, None)
      else oneshot_read channel)"

text \<open>
  \<^verbatim>\<open>readOneShotVoltage\<close>; \<open>raw_to_voltage\<close> is the answer of \<^verbatim>\<open>adc_cali_raw_to_voltage\<close> for
  a calibration handle and a raw value. The local \<^verbatim>\<open>raw\<close> starts at 0.
\<close>

definition readOneShotVoltage ::
  "ADCManager \<Rightarrow> nat \<Rightarrow> nat \<Rightarrow> (nat \<Rightarrow> esp_err_t \<times> int option) \<Rightarrow>
   (nat \<Rightarrow> int \<Rightarrow> esp_err_t \<times> int option) \<Rightarrow> esp_err_t \<times> int option" where
  "readOneShotVoltage s unit channel oneshot_read raw_to_voltage =
     (let (ret, written) = readOneShot s unit channel oneshot_read;
          raw = (case written of None \<Rightarrow> 0 | Some v \<Rightarrow> v)
      in if ret \<noteq> ESP_OK then (ret, None)
         else (case adc_cali_handle s of
                 Some h \<Rightarrow> raw_to_voltage h raw
               | None \<Rightarrow> (ESP_OK, Some raw)))"


section \<open>Observations and concrete inputs\<close>

text \<open>The request the client layer was handed: the first \<open>Client_init\<close> of a call list.\<close>

fun requested_session :: "mqtt_call list \<Rightarrow> mqtt_session option" where
  "requested_session [] = None"
| "requested_session (Client_init ses # _) = Some ses"
| "requested_session (_ # cs) = requested_session cs"

definition last_will :: "mqtt_session \<Rightarrow> string option \<times> string option \<times> int \<times> bool" where
  "last_will ses =
     (ses_last_will_topic ses, ses_last_will_msg ses, ses_last_will_qos ses, ses_last_will_retain ses)"

definition stored_will :: "MqttClient \<Rightarrow> string \<times> string \<times> int \<times> bool" where
  "stored_will s = (mq_willTopic s, mq_willPayload s, mq_willQos s, mq_willRetain s)"

text \<open>A pin table with callback 7 on pin 4, and pads that all read low.\<close>

definition pin4_registered :: "nat GpioManager" where
  "pin4_registered = \<lparr>gpio_configs = (\<lambda>_. None)(4 := Some 7), gpio_initialized = True\<rparr>"

definition pads_low :: "int \<Rightarrow> int" where
  "pads_low = (\<lambda>_. 0)"

text \<open>A run of the broker client in which the only \<^verbatim>\<open>configure\<close> fails.\<close>

definition mqtt_quiet_ops :: "mqtt_op list" where
  "mqtt_quiet_ops =
     [Op_setWill ''status'' ''offline'' 1 True,
      Op_configure ''mqtt://broker'' ''dev'' [] [] 60 True False,
      Op_connect True,
      Op_setEventCallback (Some 5) 9,
      Op_event MQTT_EVENT_ERROR]"

definition mqtt_observed :: MqttClient where
  "mqtt_observed = mqtt_setEventCallback MqttClient_new (Some 5) 9"

text \<open>Runs of the radio manager on a radio layer that accepts every request.\<close>

definition wifi_sta_then_ap :: "wifi_op list" where
  "wifi_sta_then_ap =
     [W_configureStation ''net'' ''pw'' [] hw_all_ok, W_configureAP ''ap'' [] 1 4 hw_all_ok]"

definition wifi_ap_then_sta :: "wifi_op list" where
  "wifi_ap_then_sta =
     [W_configureAP ''ap'' [] 1 4 hw_all_ok, W_configureStation ''net'' ''pw'' [] hw_all_ok]"

definition wifi_ap_only_ops :: "wifi_op list" where
  "wifi_ap_only_ops =
     [W_configureAP ''ap'' [] 1 4 hw_all_ok, W_configureAP ''ap2'' ''secret123'' 6 2 hw_all_ok]"

definition wifi_link_lost_ops :: "wifi_op list" where
  "wifi_link_lost_ops =
     [W_configureStation ''net'' ''pw'' [] hw_all_ok, W_start hw_all_ok,
      W_event IP_EVENT_STA_GOT_IP, W_event WIFI_EVENT_STA_DISCONNECTED]"

text \<open>A one-shot unit whose calibration scheme could not be created, and a driver that
  samples 2047 on every channel.\<close>

definition adc_uncalibrated :: ADCManager where
  "adc_uncalibrated =
     snd (configOneShot ADCManager_new 0 3 12 3 (ESP_OK, Some 1) ESP_OK (0x106, None))"

definition adc_sample :: "nat \<Rightarrow> esp_err_t \<times> int option" where
  "adc_sample channel = (ESP_OK, Some 2047)"

definition adc_conversion :: "nat \<Rightarrow> int \<Rightarrow> esp_err_t \<times> int option" where
  "adc_conversion h raw = (ESP_OK, Some (raw * 2))"


section \<open>Properties of the GpioManager\<close>

lemma table_index_ok_64: "table_index_ok pin \<Longrightarrow> \<not> (pin < 0 \<or> 64 \<le> pin)"
  by (simp add: table_index_ok_def GPIO_NUM_MAX_def)

text \<open>
  Claim C3, as amended. For every pin \<open>p\<close> of the table (\<open>0..39\<close>):
  \<^verbatim>\<open>configurePin(p, mode, ..., trigger = NONE, callback = null)\<close> returns what the hardware
  configuration request answered, leaves the callback table as it was and arms no
  interrupt handler, so dispatch for \<open>p\<close> does after the call what it did before it; in
  particular, when no callback was registered for \<open>p\<close> before the call, none is registered
  after it and a later dispatch for \<open>p\<close> invokes nothing. And whatever trigger and callback
  are passed, when the hardware configuration request fails \<^verbatim>\<open>configurePin\<close> returns
  \<^verbatim>\<open>false\<close> and leaves the callback table unchanged.
\<close>

theorem configurePin_without_callback:
  assumes "table_index_ok p"
  shows "(case configurePin s p mode pu pd INTR_NONE None od drive isr_ok cfg_ok of
            None \<Rightarrow> False
          | Some (ok, s', t) \<Rightarrow>
              ok = cfg_ok \<and> gpio_configs s' = gpio_configs s \<and>
              isrHandler s' p level = isrHandler s p level \<and>
              Isr_handler_add p \<notin> set t \<and>
              (gpio_configs s p = None \<longrightarrow>
                 gpio_configs s' p = None \<and> isrHandler s' p level = Some []))
       \<and> (case configurePin s p mode pu pd intr callback od drive isr_ok False of
            None \<Rightarrow> False
          | Some (ok, s', t) \<Rightarrow> \<not> ok \<and> gpio_configs s' = gpio_configs s)"
  using assms table_index_ok_64 [OF assms]
  by (auto simp: configurePin_def gpio_init_def isrHandler_def Let_def split: if_splits)

text \<open>
  Witness for C3: pin 4 of a fresh manager, configured as an output without trigger and
  callback, and a failing request that carries a trigger and a callback.
\<close>

theorem configurePin_without_callback_witness:
  "table_index_ok 4 \<and> gpio_configs (GpioManager_new :: nat GpioManager) 4 = None \<and>
   map_option fst (configurePin (GpioManager_new :: nat GpioManager) 4 OUTPUT False False
       INTR_NONE None False DRIVE_2 True True) = Some True \<and>
   isrHandler (fst (snd (the (configurePin (GpioManager_new :: nat GpioManager) 4 OUTPUT False False
       INTR_NONE None False DRIVE_2 True True)))) 4 1 = Some [] \<and>
   map_option fst (configurePin (GpioManager_new :: nat GpioManager) 4 OUTPUT False False
       INTR_RISING (Some 7) False DRIVE_2 True False) = Some False"
  using configurePin_without_callback [where p = 4 and s = "GpioManager_new :: nat GpioManager"
      and mode = OUTPUT and pu = False and pd = False and od = False and drive = DRIVE_2
      and isr_ok = True and cfg_ok = True and level = 1 and intr = INTR_RISING
      and callback = "Some 7"]
  by (simp add: table_index_ok_def GPIO_NUM_MAX_def GpioManager_new_def configurePin_def
      gpio_init_def isrHandler_def Let_def)

text \<open>
  Counterexample to C3 as stated. Callback 7 is registered on pin 4 with a rising-edge
  trigger; pin 4 is then configured again with trigger NONE and a null callback. The call
  succeeds, the manager is as before, callback 7 is still registered on pin 4, and a
  dispatch for pin 4 invokes it.
\<close>

theorem configurePin_keeps_earlier_callback:
  "map_option (fst \<circ> snd) (configurePin GpioManager_new 4 INPUT False False INTR_RISING (Some 7)
       False DRIVE_DEFAULT True True) = Some pin4_registered \<and>
   map_option fst (configurePin pin4_registered 4 INPUT False False INTR_NONE None
       False DRIVE_DEFAULT True True) = Some True \<and>
   map_option (fst \<circ> snd) (configurePin pin4_registered 4 INPUT False False INTR_NONE None
       False DRIVE_DEFAULT True True) = Some pin4_registered \<and>
   gpio_configs pin4_registered 4 = Some 7 \<and>
   gpio_configs pin4_registered 4 \<noteq> None \<and>
   isrHandler pin4_registered 4 1 = Some [(7, 4, 1)] \<and>
   isrHandler pin4_registered 4 1 \<noteq> Some []"
  by (simp add: configurePin_def gpio_init_def isrHandler_def Let_def pin4_registered_def
      GpioManager_new_def table_index_ok_def GPIO_NUM_MAX_def)

text \<open>
  Claim C8. \<^verbatim>\<open>toggle(p)\<close> reads the level of \<open>p\<close> and writes its complement: on pin hardware
  where reading \<open>p\<close> after a write to \<open>p\<close> gives the written level (nothing else changes the
  pin in between), \<^verbatim>\<open>getLevel(p)\<close> right after \<^verbatim>\<open>toggle(p)\<close> is the complement of
  \<^verbatim>\<open>getLevel(p)\<close> right before it.
\<close>

theorem toggle_complements_level:
  assumes "\<And>v. gl (sl hw p v) p = (if v = 0 then 0 else 1)"
  shows "getLevel gl (toggle gl sl hw p) p = (if getLevel gl hw p = 0 then 1 else 0)"
  using assms by (simp add: toggle_def getLevel_def setLevel_def Let_def)

text \<open>Witness for C8: pin 4 of the read-back pads, low before the toggle and high after.\<close>

theorem toggle_complements_level_witness:
  "(\<forall>v. pad_get_level (pad_set_level pads_low 4 v) 4 = (if v = 0 then 0 else 1)) \<and>
   getLevel pad_get_level pads_low 4 = 0 \<and>
   getLevel pad_get_level (toggle pad_get_level pad_set_level pads_low 4) 4 = 1"
proof -
  have h: "\<And>v. pad_get_level (pad_set_level pads_low 4 v) 4 = (if v = 0 then 0 else 1)"
    by (simp add: pad_get_level_def pad_set_level_def)
  have "getLevel pad_get_level pads_low 4 = 0"
    by (simp add: getLevel_def pad_get_level_def pads_low_def)
  with h toggle_complements_level [of pad_get_level pad_set_level pads_low 4, OF h]
  show ?thesis by simp
qed


section \<open>Properties of the MqttClient\<close>

lemma configure_request:
  "requested_session (snd (snd (configure s uri cid usr pw ka cs init_ok))) =
     Some (read_config (fst (snd (configure s uri cid usr pw ka cs init_ok))))"
  by (simp add: configure_def esp_mqtt_client_init_def read_config_def Let_def config_zero_def)

lemma configure_client:
  "mq_client (fst (snd (configure s uri cid usr pw ka cs init_ok))) =
     (if init_ok then
        Some \<lparr>cl_session = read_config (fst (snd (configure s uri cid usr pw ka cs init_ok))),
              cl_event_handler = True\<rparr>
      else None)"
  by (simp add: configure_def esp_mqtt_client_init_def read_config_def Let_def config_zero_def)

lemma configure_last_will:
  "last_will (read_config (fst (snd (configure s uri cid usr pw ka cs init_ok)))) =
     (if mq_willTopic s = [] then (None, None, 0, False)
      else (Some (mq_willTopic s), Some (mq_willPayload s), mq_willQos s, mq_willRetain s))"
  by (simp add: configure_def esp_mqtt_client_init_def read_config_def last_will_def Let_def
      config_zero_def)

text \<open>
  Claim C2, as amended. \<^verbatim>\<open>setWill\<close> leaves the client handle, and with it the session the
  client layer holds, untouched: after a successful \<^verbatim>\<open>configure\<close> followed by \<^verbatim>\<open>setWill\<close>
  the session still carries the last-will fields the manager stored when \<^verbatim>\<open>configure\<close> ran.
  A \<^verbatim>\<open>configure\<close> that follows \<^verbatim>\<open>setWill(topic, payload, qos, retain)\<close> hands the client
  layer a request with exactly these four last-will fields when \<open>topic\<close> is not empty; when
  \<open>topic\<close> is empty the request carries no last will (null topic and message, qos 0, retain
  off), whatever payload, qos and retain were stored.
\<close>

theorem setWill_then_configure:
  "mq_client (setWill s topic payload qos retain) = mq_client s \<and>
   stored_will (setWill s topic payload qos retain) = (topic, payload, qos, retain) \<and>
   map_option (last_will \<circ> cl_session)
     (mq_client (setWill (fst (snd (configure s uri cid usr pw ka cs True))) topic payload qos retain)) =
     Some (if mq_willTopic s = [] then (None, None, 0, False)
           else (Some (mq_willTopic s), Some (mq_willPayload s), mq_willQos s, mq_willRetain s)) \<and>
   map_option last_will
     (requested_session
        (snd (snd (configure (setWill s topic payload qos retain) uri cid usr pw ka cs init_ok)))) =
     Some (if topic = [] then (None, None, 0, False) else (Some topic, Some payload, qos, retain)) \<and>
   map_option (last_will \<circ> cl_session)
     (mq_client (fst (snd (configure (setWill s topic payload qos retain) uri cid usr pw ka cs True)))) =
     Some (if topic = [] then (None, None, 0, False) else (Some topic, Some payload, qos, retain))"
proof -
  let ?s1 = "fst (snd (configure s uri cid usr pw ka cs True))"
  let ?sw = "setWill s topic payload qos retain"
  have a: "mq_client (setWill s' topic payload qos retain) = mq_client s'" for s'
    by (simp add: setWill_def)
  have b: "stored_will ?sw = (topic, payload, qos, retain)"
    by (simp add: setWill_def stored_will_def)
  have w: "mq_willTopic ?sw = topic" "mq_willPayload ?sw = payload"
    "mq_willQos ?sw = qos" "mq_willRetain ?sw = retain"
    by (simp_all add: setWill_def)
  have c: "map_option (last_will \<circ> cl_session)
             (mq_client (fst (snd (configure s' uri cid usr pw ka cs True)))) =
           Some (if mq_willTopic s' = [] then (None, None, 0, False)
                 else (Some (mq_willTopic s'), Some (mq_willPayload s'), mq_willQos s',
                       mq_willRetain s'))" for s'
    using configure_last_will [of s' uri cid usr pw ka cs True]
    by (simp add: configure_client)
  have c1: "map_option (last_will \<circ> cl_session) (mq_client (setWill ?s1 topic payload qos retain)) =
     Some (if mq_willTopic s = [] then (None, None, 0, False)
           else (Some (mq_willTopic s), Some (mq_willPayload s), mq_willQos s, mq_willRetain s))"
    unfolding a by (rule c)
  have c2: "map_option (last_will \<circ> cl_session)
     (mq_client (fst (snd (configure ?sw uri cid usr pw ka cs True)))) =
     Some (if topic = [] then (None, None, 0, False) else (Some topic, Some payload, qos, retain))"
    using c [of ?sw] unfolding w .
  have d: "map_option last_will
     (requested_session (snd (snd (configure ?sw uri cid usr pw ka cs init_ok)))) =
     Some (if topic = [] then (None, None, 0, False) else (Some topic, Some payload, qos, retain))"
    using configure_last_will [of ?sw uri cid usr pw ka cs init_ok]
    unfolding w by (simp add: configure_request)
  show ?thesis
    by (intro conjI a b c1 d c2)
qed

text \<open>
  Witness for C2: a fresh client is configured with no will stored, a will on topic
  \<open>status\<close> is set, and the client is configured again. The first session has no last
  will, before and after \<^verbatim>\<open>setWill\<close>; the second request carries the new one.
\<close>

theorem setWill_then_configure_witness:
  "map_option (last_will \<circ> cl_session)
     (mq_client (setWill (fst (snd (configure MqttClient_new ''mqtt://broker'' ''dev'' [] [] 60 True True)))
        ''status'' ''offline'' 1 True)) = Some (None, None, 0, False) \<and>
   map_option last_will
     (requested_session (snd (snd (configure (setWill MqttClient_new ''status'' ''offline'' 1 True)
        ''mqtt://broker'' ''dev'' [] [] 60 True True)))) =
     Some (Some ''status'', Some ''offline'', 1, True)"
  using setWill_then_configure [of MqttClient_new "''status''" "''offline''" 1 True
      "''mqtt://broker''" "''dev''" "[]" "[]" 60 True True]
  by (simp add: MqttClient_new_def)

text \<open>
  Counterexample to C2 as stated. \<^verbatim>\<open>setWill("", "offline", 1, true)\<close> stores its four
  fields, yet the request of the \<^verbatim>\<open>configure\<close> that follows, and the session created from
  it, carry none of them: no topic, no message, qos 0, retain off.
\<close>

theorem setWill_empty_topic_not_picked_up:
  "stored_will (setWill MqttClient_new [] ''offline'' 1 True) = ([], ''offline'', 1, True) \<and>
   map_option last_will (requested_session (snd (snd
     (configure (setWill MqttClient_new [] ''offline'' 1 True) ''mqtt://broker'' ''dev'' [] [] 60 True True)))) =
     Some (None, None, 0, False) \<and>
   map_option (last_will \<circ> cl_session) (mq_client (fst (snd
     (configure (setWill MqttClient_new [] ''offline'' 1 True) ''mqtt://broker'' ''dev'' [] [] 60 True True)))) =
     Some (None, None, 0, False)"
  by (simp add: configure_def setWill_def MqttClient_new_def esp_mqtt_client_init_def
      read_config_def last_will_def stored_will_def config_zero_def Let_def)

lemma mqtt_step_no_client:
  "mq_client s = None \<Longrightarrow> \<not> configure_succeeds x \<Longrightarrow> mq_client (mqtt_step s x) = None"
  by (cases x)
     (simp_all add: configure_client setWill_def mqtt_connect_def mqtt_disconnect_def publish_def
        publish_binary_def subscribe_def unsubscribe_def mqtt_setEventCallback_def
        eventHandlerCb_def Let_def split: option.splits)

lemma mqtt_run_no_client:
  "mq_client s = None \<Longrightarrow> \<not> list_ex configure_succeeds ops \<Longrightarrow>
   mq_client (mqtt_run s ops) = None"
  by (induction ops arbitrary: s) (simp_all add: mqtt_step_no_client)

lemma quiet_ops_fail: "\<not> list_ex configure_succeeds mqtt_quiet_ops"
  by (simp add: mqtt_quiet_ops_def)

text \<open>
  Claim C4. After any run of public calls and broker events, started from the freshly
  constructed client, in which no \<^verbatim>\<open>configure\<close> succeeded, both overloads of \<^verbatim>\<open>publish\<close>,
  \<^verbatim>\<open>subscribe\<close> and \<^verbatim>\<open>unsubscribe\<close> each return \<open>-1\<close>, leave the manager exactly as it was
  (status, URI, client id, will fields and all the rest) and call nothing of the client
  layer.
\<close>

theorem forwarders_before_configure:
  assumes "\<not> list_ex configure_succeeds ops"
  shows "publish (mqtt_run MqttClient_new ops) topic payload qos retain msg_id =
           (- 1, mqtt_run MqttClient_new ops, []) \<and>
         publish_binary (mqtt_run MqttClient_new ops) topic data len qos retain msg_id =
           (- 1, mqtt_run MqttClient_new ops, []) \<and>
         subscribe (mqtt_run MqttClient_new ops) topic qos msg_id =
           (- 1, mqtt_run MqttClient_new ops, []) \<and>
         unsubscribe (mqtt_run MqttClient_new ops) topic msg_id =
           (- 1, mqtt_run MqttClient_new ops, [])"
proof -
  have "mq_client MqttClient_new = None" by (simp add: MqttClient_new_def)
  then have "mq_client (mqtt_run MqttClient_new ops) = None"
    using assms by (rule mqtt_run_no_client)
  then show ?thesis
    by (simp add: publish_def publish_binary_def subscribe_def unsubscribe_def)
qed

text \<open>
  Witness for C4: a run with a will, a failed \<^verbatim>\<open>configure\<close>, a \<^verbatim>\<open>connect\<close>, an observer and
  an error event; the status is then \<open>MQTT_ERROR\<close> and stays so across the four calls.
\<close>

theorem forwarders_before_configure_witness:
  "\<not> list_ex configure_succeeds mqtt_quiet_ops \<and>
   mq_status (mqtt_run MqttClient_new mqtt_quiet_ops) = MQTT_ERROR \<and>
   fst (publish (mqtt_run MqttClient_new mqtt_quiet_ops) ''t'' ''x'' 0 False 17) = - 1 \<and>
   fst (snd (publish (mqtt_run MqttClient_new mqtt_quiet_ops) ''t'' ''x'' 0 False 17)) =
     mqtt_run MqttClient_new mqtt_quiet_ops \<and>
   fst (subscribe (mqtt_run MqttClient_new mqtt_quiet_ops) ''t'' 0 17) = - 1 \<and>
   fst (unsubscribe (mqtt_run MqttClient_new mqtt_quiet_ops) ''t'' 17) = - 1"
proof -
  have st: "mq_status (mqtt_run MqttClient_new mqtt_quiet_ops) = MQTT_ERROR"
    by (simp add: mqtt_quiet_ops_def MqttClient_new_def configure_def setWill_def
        mqtt_connect_def mqtt_setEventCallback_def eventHandlerCb_def esp_mqtt_client_init_def
        Let_def)
  show ?thesis
    using quiet_ops_fail st
      forwarders_before_configure [OF quiet_ops_fail, of "''t''" "''x''" 0 False 17]
    by simp
qed

text \<open>
  Claim C5. The trampoline maps BeforeConnect to Connecting, Connected to Connected,
  Disconnected to Disconnected and Error to Error; Subscribed, Unsubscribed, Published and
  Data leave the status alone; no event changes anything but the status; and for every
  event the observer, when one is registered, is called exactly once, with the event and
  the user data, at a moment when the manager already shows the status after the
  transition. Without an observer nothing is called.
\<close>

theorem eventHandlerCb_dispatch:
  "mq_status (fst (eventHandlerCb s MQTT_EVENT_BEFORE_CONNECT)) = MQTT_CONNECTING \<and>
   mq_status (fst (eventHandlerCb s MQTT_EVENT_CONNECTED)) = MQTT_CONNECTED \<and>
   mq_status (fst (eventHandlerCb s MQTT_EVENT_DISCONNECTED)) = MQTT_DISCONNECTED \<and>
   mq_status (fst (eventHandlerCb s MQTT_EVENT_ERROR)) = MQTT_ERROR \<and>
   mq_status (fst (eventHandlerCb s MQTT_EVENT_SUBSCRIBED)) = mq_status s \<and>
   mq_status (fst (eventHandlerCb s MQTT_EVENT_UNSUBSCRIBED)) = mq_status s \<and>
   mq_status (fst (eventHandlerCb s MQTT_EVENT_PUBLISHED)) = mq_status s \<and>
   mq_status (fst (eventHandlerCb s MQTT_EVENT_DATA)) = mq_status s \<and>
   fst (eventHandlerCb s e) = s\<lparr>mq_status := mq_status (fst (eventHandlerCb s e))\<rparr> \<and>
   snd (eventHandlerCb s e) =
     (case mq_userCallback s of
        None \<Rightarrow> []
      | Some cb \<Rightarrow> [(cb, e, mq_userData s, fst (eventHandlerCb s e))])"
  by (simp add: eventHandlerCb_def Let_def split: option.splits)

text \<open>
  Witness for C5: observer 5 with user data 9 on a fresh (Disconnected) client; a
  Connected event calls it once, and the manager it sees is already Connected.
\<close>

theorem eventHandlerCb_dispatch_witness:
  "mq_status mqtt_observed = MQTT_DISCONNECTED \<and>
   mq_status (fst (eventHandlerCb mqtt_observed MQTT_EVENT_CONNECTED)) = MQTT_CONNECTED \<and>
   snd (eventHandlerCb mqtt_observed MQTT_EVENT_CONNECTED) =
     [(5, MQTT_EVENT_CONNECTED, 9, mqtt_observed\<lparr>mq_status := MQTT_CONNECTED\<rparr>)]"
  using eventHandlerCb_dispatch [of mqtt_observed MQTT_EVENT_CONNECTED]
  by (simp add: mqtt_observed_def mqtt_setEventCallback_def MqttClient_new_def
      eventHandlerCb_def Let_def)

text \<open>
  Claim C9. \<^verbatim>\<open>configure\<close> stores its \<^verbatim>\<open>cleanSession\<close> argument, not negated, in the
  request's \<^verbatim>\<open>disable_clean_session\<close> field, so the request handed to the client layer asks
  for a clean session exactly when \<^verbatim>\<open>cleanSession\<close> is false.
\<close>

theorem configure_clean_session_flag:
  "cfg_disable_clean_session (mq_config (fst (snd (configure s uri cid usr pw ka cleanSession init_ok)))) =
     cleanSession \<and>
   map_option ses_disable_clean_session
     (requested_session (snd (snd (configure s uri cid usr pw ka cleanSession init_ok)))) =
     Some cleanSession \<and>
   map_option (\<lambda>ses. \<not> ses_disable_clean_session ses)
     (requested_session (snd (snd (configure s uri cid usr pw ka cleanSession init_ok)))) =
     Some (\<not> cleanSession)"
  by (simp add: configure_def esp_mqtt_client_init_def read_config_def Let_def config_zero_def)

text \<open>Witness for C9: \<^verbatim>\<open>cleanSession = true\<close> builds a request that disables clean session.\<close>

theorem configure_clean_session_flag_witness:
  "map_option ses_disable_clean_session
     (requested_session (snd (snd
        (configure MqttClient_new ''mqtt://broker'' ''dev'' [] [] 60 True True)))) = Some True"
  using configure_clean_session_flag [of MqttClient_new "''mqtt://broker''" "''dev''" "[]" "[]" 60
      True True]
  by simp


section \<open>Properties of the WiFiManager\<close>

text \<open>
  Claim C1, evaluated on the code. On a fresh manager and a radio layer that accepts
  every request, \<^verbatim>\<open>configureStation\<close> then \<^verbatim>\<open>configureAP\<close> gives mode Both. In the opposite
  order \<^verbatim>\<open>configureAP\<close> gives Both and the \<^verbatim>\<open>configureStation\<close> that follows returns
  \<^verbatim>\<open>true\<close> and sets the mode to Station; and from mode Both a second \<^verbatim>\<open>configureAP\<close> sets
  the mode to AccessPoint. The credentials of the role not being configured stay as they
  were.
\<close>

theorem configureStation_after_configureAP_drops_ap:
  "wf_mode (wifi_run WiFiManager_new wifi_sta_then_ap) = BOTH \<and>
   map_option (wf_mode \<circ> snd) (configureAP WiFiManager_new ''ap'' [] 1 4 hw_all_ok) = Some BOTH \<and>
   map_option fst
     (configureStation (snd (the (configureAP WiFiManager_new ''ap'' [] 1 4 hw_all_ok)))
        ''net'' ''pw'' [] hw_all_ok) = Some True \<and>
   map_option (wf_mode \<circ> snd)
     (configureStation (snd (the (configureAP WiFiManager_new ''ap'' [] 1 4 hw_all_ok)))
        ''net'' ''pw'' [] hw_all_ok) = Some STATION \<and>
   wf_mode (wifi_run WiFiManager_new wifi_ap_then_sta) = STATION \<and>
   wf_apSSID (wifi_run WiFiManager_new wifi_ap_then_sta) = ''ap'' \<and>
   wf_mode (wifi_run WiFiManager_new wifi_ap_only_ops) = ACCESS_POINT"
  by (simp add: wifi_sta_then_ap_def wifi_ap_then_sta_def wifi_ap_only_ops_def configureAP_def
      configureStation_def ensure_init_def wifi_init_def nvs_bring_up_def WiFiManager_new_def
      hw_all_ok_def Let_def)

text \<open>
  Claim C6. When the mode is AccessPoint only, \<^verbatim>\<open>waitForConnection\<close> returns \<^verbatim>\<open>false\<close> for
  every timeout without a single wait on the event group.
\<close>

theorem waitForConnection_ap_only:
  assumes "wf_mode s = ACCESS_POINT"
  shows "waitForConnection s timeoutMs tick_period_ms bits = Some (False, [])"
  using assms by (simp add: waitForConnection_def)

text \<open>
  Witness for C6: two calls of \<^verbatim>\<open>configureAP\<close> on a fresh manager leave the mode at
  AccessPoint; waiting 5000 ms then returns at once, although both event bits are set.
\<close>

theorem waitForConnection_ap_only_witness:
  "wf_mode (wifi_run WiFiManager_new wifi_ap_only_ops) = ACCESS_POINT \<and>
   waitForConnection (wifi_run WiFiManager_new wifi_ap_only_ops) 5000 10 3 = Some (False, [])"
proof -
  have m: "wf_mode (wifi_run WiFiManager_new wifi_ap_only_ops) = ACCESS_POINT"
    by (simp add: wifi_ap_only_ops_def configureAP_def ensure_init_def wifi_init_def
        nvs_bring_up_def WiFiManager_new_def hw_all_ok_def Let_def)
  show ?thesis
    using m waitForConnection_ap_only [OF m, of 5000 10 3] by simp
qed

lemma wifi_init_status:
  "wifi_init s hw = Some (ok, s') \<Longrightarrow> wf_status s' = wf_status s"
  by (auto simp: wifi_init_def Let_def split: if_splits)

lemma ensure_init_status:
  "ensure_init s hw = Some (ok, s') \<Longrightarrow> wf_status s' = wf_status s"
  by (auto simp: ensure_init_def dest: wifi_init_status split: if_splits)

lemma configureStation_status:
  "configureStation s ssid pw host hw = Some (ok, s') \<Longrightarrow> wf_status s' = wf_status s"
  by (auto simp: configureStation_def Let_def dest: ensure_init_status
      split: option.splits if_splits prod.splits)

lemma configureAP_status:
  "configureAP s ssid pw ch mx hw = Some (ok, s') \<Longrightarrow> wf_status s' = wf_status s"
  by (auto simp: configureAP_def Let_def dest: ensure_init_status
      split: option.splits if_splits prod.splits)

lemma wifi_start_status:
  "wifi_start s hw = Some (ok, s') \<Longrightarrow> wf_status s' = wf_status s \<or> wf_status s' = CONNECTING"
  by (auto simp: wifi_start_def Let_def dest: ensure_init_status
      split: option.splits if_splits prod.splits)

lemma wifi_stop_status:
  "wf_status (snd (wifi_stop s hw)) = wf_status s \<or> wf_status (snd (wifi_stop s hw)) = DISCONNECTED"
  by (simp add: wifi_stop_def)

lemma scanNetworks_status:
  "scanNetworks s n found hw = Some (rs, s') \<Longrightarrow> wf_status s' = wf_status s"
  by (auto simp: scanNetworks_def dest: ensure_init_status
      split: option.splits if_splits prod.splits)

lemma wifiEventHandler_status:
  "wf_status (fst (wifiEventHandler s e)) = wf_status s \<or>
   wf_status (fst (wifiEventHandler s e)) \<in> {DISCONNECTED, CONNECTING, CONNECTED}"
  by (cases e) (simp_all add: Let_def)

lemma wifi_step_not_failed:
  assumes "wf_status s \<noteq> FAILED" and "wifi_step s x = Some s'"
  shows "wf_status s' \<noteq> FAILED"
proof (cases x)
  case (W_init hw)
  with assms show ?thesis by (auto dest: wifi_init_status)
next
  case (W_configureStation ssid pw host hw)
  with assms show ?thesis by (auto dest: configureStation_status)
next
  case (W_configureAP ssid pw ch mx hw)
  with assms show ?thesis by (auto dest: configureAP_status)
next
  case (W_start hw)
  with assms show ?thesis by (auto dest: wifi_start_status)
next
  case (W_stop hw)
  with assms wifi_stop_status [of s hw] show ?thesis by auto
next
  case (W_setEventCallback cb ud)
  with assms show ?thesis by (auto simp: wifi_setEventCallback_def)
next
  case (W_scanNetworks n found hw)
  with assms show ?thesis by (auto dest: scanNetworks_status)
next
  case (W_event e)
  with assms wifiEventHandler_status [of s e] show ?thesis by auto
qed (use assms in auto)

lemma wifi_run_not_failed:
  "wf_status s \<noteq> FAILED \<Longrightarrow> wf_status (wifi_run s ops) \<noteq> FAILED"
proof (induction ops arbitrary: s)
  case Nil
  then show ?case by simp
next
  case (Cons x xs)
  show ?case
  proof (cases "wifi_step s x")
    case None
    with Cons.prems show ?thesis by simp
  next
    case (Some s')
    with Cons.prems have "wf_status s' \<noteq> FAILED" by (simp add: wifi_step_not_failed)
    with Some Cons.IH show ?thesis by simp
  qed
qed

text \<open>
  Claim C10. Whatever public calls and radio events a run from the freshly constructed
  manager consists of, and whatever the radio layer answers, the status it reaches is
  never Failed: it is one of Disconnected, Connecting, Connected. In particular a
  station-disconnect event sets the status to Disconnected.
\<close>

theorem wifi_status_never_failed:
  "wf_status (wifi_run WiFiManager_new ops) \<noteq> FAILED \<and>
   wf_status (wifi_run WiFiManager_new ops) \<in> {DISCONNECTED, CONNECTING, CONNECTED} \<and>
   wf_status (fst (wifiEventHandler s WIFI_EVENT_STA_DISCONNECTED)) = DISCONNECTED"
proof -
  have "wf_status WiFiManager_new \<noteq> FAILED" by (simp add: WiFiManager_new_def)
  then have n: "wf_status (wifi_run WiFiManager_new ops) \<noteq> FAILED"
    by (rule wifi_run_not_failed)
  then have "wf_status (wifi_run WiFiManager_new ops) \<in> {DISCONNECTED, CONNECTING, CONNECTED}"
    by (cases "wf_status (wifi_run WiFiManager_new ops)") simp_all
  with n show ?thesis by (simp add: Let_def)
qed

text \<open>
  Witness for C10: station configured, radio started, address obtained, link lost. The
  run ends in Disconnected.
\<close>

theorem wifi_status_never_failed_witness:
  "wf_status (wifi_run WiFiManager_new wifi_link_lost_ops) = DISCONNECTED \<and>
   wf_status (wifi_run WiFiManager_new wifi_link_lost_ops) \<noteq> FAILED"
proof -
  have "wf_status (wifi_run WiFiManager_new wifi_link_lost_ops) = DISCONNECTED"
    by (simp add: wifi_link_lost_ops_def configureStation_def wifi_start_def ensure_init_def
        wifi_init_def nvs_bring_up_def station_role_def WiFiManager_new_def hw_all_ok_def Let_def)
  with wifi_status_never_failed [of wifi_link_lost_ops] show ?thesis by simp
qed


section \<open>Properties of the ADCManager\<close>

text \<open>
  Claim C7. With no calibration handle, \<^verbatim>\<open>readOneShotVoltage\<close> succeeds with exactly the
  value \<^verbatim>\<open>readOneShot\<close> delivers for the same raw sample.
\<close>

theorem readOneShotVoltage_passthrough:
  assumes "adc_cali_handle s = None"
    and "readOneShot s unit channel oneshot_read = (ESP_OK, Some raw)"
  shows "readOneShotVoltage s unit channel oneshot_read raw_to_voltage = (ESP_OK, Some raw)"
  using assms by (simp add: readOneShotVoltage_def)

text \<open>
  Witness for C7: a unit configured while calibration is unsupported; the raw sample 2047
  comes back as 2047, the conversion function is never consulted.
\<close>

theorem readOneShotVoltage_passthrough_witness:
  "adc_cali_handle adc_uncalibrated = None \<and>
   readOneShot adc_uncalibrated 0 3 adc_sample = (ESP_OK, Some 2047) \<and>
   readOneShotVoltage adc_uncalibrated 0 3 adc_sample adc_conversion = (ESP_OK, Some 2047)"
proof -
  have c: "adc_cali_handle adc_uncalibrated = None"
    by (simp add: adc_uncalibrated_def configOneShot_def ADCManager_new_def store_handle_def
        ESP_OK_def Let_def)
  have r: "readOneShot adc_uncalibrated 0 3 adc_sample = (ESP_OK, Some 2047)"
    by (simp add: adc_uncalibrated_def configOneShot_def ADCManager_new_def store_handle_def
        readOneShot_def adc_sample_def ESP_OK_def Let_def)
  show ?thesis
    using c r readOneShotVoltage_passthrough [OF c r, of adc_conversion] by simp
qed

end
